theory Spec2Isabelle
  imports Complex_Main "HOL-Library.Multiset"
begin

section \<open>BCRA statistics client: data retrieval and normalisation\<close>

text \<open>
  A shallow embedding of \<^verbatim>\<open>bcra_api_client.py\<close> (class \<^verbatim>\<open>BCRAClient\<close>) and of
  \<^verbatim>\<open>fetch_datos\<close> in \<^verbatim>\<open>generate_dashboard.py\<close>. Python exceptions are values of
  \<open>py_error\<close> and a computation that may raise returns \<open>py_error + 'a\<close> (\<open>Inl\<close> is the
  raise). Everything outside the repository is explicit: the network, the clock, the
  console and the file system are operations on a world state \<open>'w\<close> that is passed
  along; the parts of pandas whose behaviour is not fixed by the repository (date
  parsing, the order chosen by the default sort, frames built from payloads that are
  not record lists) are fields of a record \<open>pandas\<close>.
\<close>

subsection \<open>Parsed JSON and Python's duck-typed operators\<close>

text \<open>
  The value of \<^verbatim>\<open>response.json()\<close>. An object is the parsed \<^verbatim>\<open>dict\<close>, kept as an
  association list in insertion order (Python dictionaries have one value per key;
  lookup reads the first binding). A float is given by its value; the floats that have
  none (\<^verbatim>\<open>NaN\<close> and the infinities) are left out.
\<close>

datatype json =
    JNull
  | JBool bool
  | JInt int
  | JFloat rat
  | JStr string
  | JArr "json list"
  | JObj "(string \<times> json) list"

datatype py_error =
    ConnectionError string
  | HTTPError nat
  | JSONDecodeError
  | TypeError
  | KeyError string
  | IndexError
  | AttributeError
  | ValueError string
  | OverflowError
  | OSError string

fun starts_with :: "string \<Rightarrow> string \<Rightarrow> bool" where
  "starts_with [] s = True"
| "starts_with (p # ps) [] = False"
| "starts_with (p # ps) (c # cs) = (p = c \<and> starts_with ps cs)"

text \<open>\<^verbatim>\<open>sub in s\<close> for two strings: \<open>sub\<close> occurs as a contiguous part of \<open>s\<close>.\<close>

fun str_contains :: "string \<Rightarrow> string \<Rightarrow> bool" where
  "str_contains sub [] = (sub = [])"
| "str_contains sub (c # cs) = (starts_with sub (c # cs) \<or> str_contains sub cs)"

text \<open>
  \<^verbatim>\<open>key in x\<close> for a string \<open>key\<close>: a key test on a dict, an element test on a list,
  a substring test on a string, and \<^verbatim>\<open>TypeError\<close> (argument is not iterable) on
  \<^verbatim>\<open>None\<close>, booleans and numbers.
\<close>

fun py_in :: "string \<Rightarrow> json \<Rightarrow> py_error + bool" where
  "py_in k (JObj m) = Inr (k \<in> set (map fst m))"
| "py_in k (JArr xs) = Inr (JStr k \<in> set xs)"
| "py_in k (JStr s) = Inr (str_contains k s)"
| "py_in k JNull = Inl TypeError"
| "py_in k (JBool b) = Inl TypeError"
| "py_in k (JInt i) = Inl TypeError"
| "py_in k (JFloat f) = Inl TypeError"

text \<open>
  \<^verbatim>\<open>x[key]\<close> for a string \<open>key\<close>: \<^verbatim>\<open>KeyError\<close> on a dict without the key,
  \<^verbatim>\<open>TypeError\<close> on everything that is not a dict (list and string indices must be
  integers, the rest is not subscriptable).
\<close>

fun py_getitem :: "json \<Rightarrow> string \<Rightarrow> py_error + json" where
  "py_getitem (JObj m) k = (case map_of m k of None \<Rightarrow> Inl (KeyError k) | Some v \<Rightarrow> Inr v)"
| "py_getitem x k = Inl TypeError"

fun is_dict :: "json \<Rightarrow> bool" where
  "is_dict (JObj m) = True"
| "is_dict x = False"

fun is_list :: "json \<Rightarrow> bool" where
  "is_list (JArr xs) = True"
| "is_list x = False"

subsection \<open>Data frames\<close>

text \<open>
  A pandas \<^verbatim>\<open>DataFrame\<close>, column by column as pandas stores it: the number of rows
  (the length of the index) and the labelled columns in order, each with one cell per
  row. A cell is a missing value (\<^verbatim>\<open>NaN\<close>), a Python object taken from the JSON
  payload, a timestamp (the result of \<^verbatim>\<open>pd.to_datetime\<close>, an integer on the time
  line) or the missing timestamp \<^verbatim>\<open>NaT\<close>. Row labels and column dtypes are not
  modelled.
\<close>

datatype label = LStr string | LInt int

datatype cell = NaN | Obj json | Timestamp int | NaT

record dataframe =
  n_rows :: nat
  cols :: "(label \<times> cell list) list"

text \<open>
  The behaviour of pandas that the repository's code does not determine:
  \<^item> \<open>frame_of_other\<close>: the \<^verbatim>\<open>DataFrame\<close> constructor on a payload that is neither
    \<^verbatim>\<open>None\<close> nor a list of dicts (it builds some frame or raises);
  \<^item> \<open>to_datetime_cell\<close>: how \<^verbatim>\<open>pd.to_datetime\<close> converts one cell of a column (the
    whole column is given too, since pandas may infer the format from it): a
    timestamp, \<^verbatim>\<open>NaT\<close> (\<open>None\<close>), or an exception for a value it cannot parse;
  \<^item> \<open>argsort\<close>: the row order \<^verbatim>\<open>sort_values\<close> computes from the keys of a column with
    its default \<^verbatim>\<open>kind='quicksort'\<close> (positions into the column);
  \<^item> \<open>strftime_ymd\<close>: \<^verbatim>\<open>strftime('%Y-%m-%d')\<close> of a timestamp.
\<close>

record pandas =
  frame_of_other :: "json \<Rightarrow> py_error + dataframe"
  to_datetime_cell :: "cell list \<Rightarrow> cell \<Rightarrow> py_error + int option"
  argsort :: "int option list \<Rightarrow> nat list"
  strftime_ymd :: "int \<Rightarrow> string"

subsection \<open>Transport: \<^verbatim>\<open>get_metodologia\<close> and \<^verbatim>\<open>get_variables_monetarias\<close>\<close>

text \<open>
  What \<^verbatim>\<open>session.get\<close> yields: it raises without a response (a network failure), or
  it returns a response with its status code and its body, the body given as the value
  \<^verbatim>\<open>response.json()\<close> parses it to (\<open>None\<close>: the body is not JSON).

  The world: the HTTP session, the clock (\<^verbatim>\<open>datetime.now()\<close> formatted as
  \<^verbatim>\<open>%Y-%m-%d\<close>, today and a number of days ago, the latter raising when the
  subtraction overflows), the console with the text \<^verbatim>\<open>str(e)\<close> of an exception, and
  the file system.
\<close>

datatype http_outcome =
    NoResponse string
  | Response nat "json option"

record 'w world =
  session_get :: "string \<Rightarrow> (string \<times> string) list \<Rightarrow> 'w \<Rightarrow> http_outcome \<times> 'w"
  now_strftime :: "'w \<Rightarrow> string \<times> 'w"
  days_ago_strftime :: "int \<Rightarrow> 'w \<Rightarrow> (py_error + string) \<times> 'w"
  print_line :: "string \<Rightarrow> 'w \<Rightarrow> 'w"
  str_exc :: "py_error \<Rightarrow> string"
  os_makedirs :: "string \<Rightarrow> 'w \<Rightarrow> (py_error + unit) \<times> 'w"
  to_csv :: "string \<Rightarrow> dataframe \<Rightarrow> 'w \<Rightarrow> (py_error + unit) \<times> 'w"

definition BASE_URL :: string where
  "BASE_URL = ''https://api.bcra.gob.ar/estadisticas/v4.0''"

text \<open>\<^verbatim>\<open>str(n)\<close> of an integer, as an f-string prints it.\<close>

definition digit_char :: "nat \<Rightarrow> char" where
  "digit_char d = ''0123456789'' ! d"

function str_nat :: "nat \<Rightarrow> string" where
  "str_nat n = (if n < 10 then [digit_char n] else str_nat (n div 10) @ [digit_char (n mod 10)])"
  by pat_completeness auto
termination
  by (relation "measure (\<lambda>n. n)") auto

definition str_int :: "int \<Rightarrow> string" where
  "str_int i = (if i < 0 then CHR ''-'' # str_nat (nat (- i)) else str_nat (nat i))"


definition monetarias_url :: "int option \<Rightarrow> string" where
  "monetarias_url id_variable =
     (case id_variable of
        None \<Rightarrow> BASE_URL @ ''/Monetarias''
      | Some i \<Rightarrow>
          if i \<noteq> 0 then BASE_URL @ ''/Monetarias/'' @ str_int i
          else BASE_URL @ ''/Monetarias'')"

text \<open>
  \<^verbatim>\<open>response.raise_for_status()\<close> of the requests library raises \<^verbatim>\<open>HTTPError\<close> for
  the client and server error statuses, 400 to 599, and for no other status.
\<close>

definition raise_for_status :: "nat \<Rightarrow> py_error + unit" where
  "raise_for_status status =
     (if 400 \<le> status \<and> status < 600 then Inl (HTTPError status) else Inr ())"

definition response_json :: "json option \<Rightarrow> py_error + json" where
  "response_json body = (case body of None \<Rightarrow> Inl JSONDecodeError | Some j \<Rightarrow> Inr j)"

text \<open>The three statements that end both transport methods: get, raise_for_status, json.\<close>

definition http_get_json ::
  "'w world \<Rightarrow> string \<Rightarrow> (string \<times> string) list \<Rightarrow> 'w \<Rightarrow> (py_error + json) \<times> 'w" where
  "http_get_json W url params w =
     (case session_get W url params w of
        (NoResponse msg, w1) \<Rightarrow> (Inl (ConnectionError msg), w1)
      | (Response status body, w1) \<Rightarrow>
          (case raise_for_status status of
             Inl e \<Rightarrow> (Inl e, w1)
           | Inr u \<Rightarrow> (response_json body, w1)))"


definition param_if_set :: "string \<Rightarrow> string option \<Rightarrow> (string \<times> string) list" where
  "param_if_set name v =
     (case v of None \<Rightarrow> [] | Some s \<Rightarrow> if s \<noteq> [] then [(name, s)] else [])"

definition query_params :: "string option \<Rightarrow> string option \<Rightarrow> (string \<times> string) list" where
  "query_params desde hasta = param_if_set ''desde'' desde @ param_if_set ''hasta'' hasta"

definition get_variables_monetarias ::
  "'w world \<Rightarrow> int option \<Rightarrow> string option \<Rightarrow> string option \<Rightarrow> 'w \<Rightarrow> (py_error + json) \<times> 'w" where
  "get_variables_monetarias W id_variable desde hasta w =
     http_get_json W (monetarias_url id_variable) (query_params desde hasta) w"

subsection \<open>\<^verbatim>\<open>get_datos_variable\<close>\<close>

text \<open>\<^verbatim>\<open>pd.DataFrame()\<close>: no rows, no columns.\<close>

definition empty_frame :: dataframe where
  "empty_frame = \<lparr>n_rows = 0, cols = []\<rparr>"

text \<open>\<^verbatim>\<open>df.empty\<close>: one of the two axes has length 0.\<close>

definition df_empty :: "dataframe \<Rightarrow> bool" where
  "df_empty df = (n_rows df = 0 \<or> cols df = [])"

text \<open>
  \<^verbatim>\<open>pd.DataFrame(records)\<close> for a list of dicts: one row per dict, the columns are the
  keys in the order in which they first appear, and a dict without a key has
  \<^verbatim>\<open>NaN\<close> in that column.
\<close>

definition first_seen :: "'a list \<Rightarrow> 'a list" where
  "first_seen xs = rev (remdups (rev xs))"

definition record_cell :: "(string \<times> json) list \<Rightarrow> string \<Rightarrow> cell" where
  "record_cell r k = (case map_of r k of None \<Rightarrow> NaN | Some v \<Rightarrow> Obj v)"

definition frame_of_records :: "(string \<times> json) list list \<Rightarrow> dataframe" where
  "frame_of_records recs =
     \<lparr>n_rows = length recs,
      cols = map (\<lambda>k. (LStr k, map (\<lambda>r. record_cell r k) recs))
                 (first_seen (concat (map (map fst) recs)))\<rparr>"


fun dict_items :: "json \<Rightarrow> (string \<times> json) list" where
  "dict_items (JObj m) = m"
| "dict_items x = []"

fun list_items :: "json \<Rightarrow> json list" where
  "list_items (JArr xs) = xs"
| "list_items x = []"

text \<open>
  \<^verbatim>\<open>pd.DataFrame(data)\<close>: \<^verbatim>\<open>None\<close> gives the empty frame, a list of dicts (the empty
  list too) the frame of those records; every other payload is left to pandas.
\<close>

definition DataFrame :: "pandas \<Rightarrow> json \<Rightarrow> py_error + dataframe" where
  "DataFrame L data =
     (case data of
        JNull \<Rightarrow> Inr empty_frame
      | JArr xs \<Rightarrow>
          if list_all is_dict xs then Inr (frame_of_records (map dict_items xs))
          else frame_of_other L data
      | _ \<Rightarrow> frame_of_other L data)"

text \<open>\<^verbatim>\<open>df[l]\<close> reads a column (\<^verbatim>\<open>KeyError\<close> without it), \<^verbatim>\<open>df[l] = c\<close> replaces it in place.\<close>

definition label_text :: "label \<Rightarrow> string" where
  "label_text l = (case l of LStr s \<Rightarrow> s | LInt i \<Rightarrow> str_int i)"

definition get_column :: "dataframe \<Rightarrow> label \<Rightarrow> py_error + cell list" where
  "get_column df l =
     (case map_of (cols df) l of None \<Rightarrow> Inl (KeyError (label_text l)) | Some c \<Rightarrow> Inr c)"

definition set_column :: "dataframe \<Rightarrow> label \<Rightarrow> cell list \<Rightarrow> dataframe" where
  "set_column df l c =
     df\<lparr>cols := map (\<lambda>(l', c'). if l' = l then (l', c) else (l', c')) (cols df)\<rparr>"

fun traverse :: "('a \<Rightarrow> py_error + 'b) \<Rightarrow> 'a list \<Rightarrow> py_error + 'b list" where
  "traverse f [] = Inr []"
| "traverse f (x # xs) =
     (case f x of
        Inl e \<Rightarrow> Inl e
      | Inr y \<Rightarrow> (case traverse f xs of Inl e \<Rightarrow> Inl e | Inr ys \<Rightarrow> Inr (y # ys)))"

definition datetime_cell :: "int option \<Rightarrow> cell" where
  "datetime_cell t = (case t of None \<Rightarrow> NaT | Some d \<Rightarrow> Timestamp d)"

text \<open>
  \<^verbatim>\<open>pd.to_datetime(column)\<close> with the default \<^verbatim>\<open>errors='raise'\<close>: every cell is
  converted, and the first cell that cannot be raises for the whole column.
\<close>

definition to_datetime :: "pandas \<Rightarrow> cell list \<Rightarrow> py_error + cell list" where
  "to_datetime L col =
     traverse (\<lambda>c. case to_datetime_cell L col c of
                      Inl e \<Rightarrow> Inl e
                    | Inr t \<Rightarrow> Inr (datetime_cell t)) col"

definition cell_key :: "cell \<Rightarrow> int option" where
  "cell_key c = (case c of Timestamp d \<Rightarrow> Some d | _ \<Rightarrow> None)"

text \<open>
  \<^verbatim>\<open>take\<close>: the rows at the given positions, in that order; a position outside the
  frame raises \<^verbatim>\<open>IndexError\<close>.
\<close>

definition take_rows :: "dataframe \<Rightarrow> nat list \<Rightarrow> py_error + dataframe" where
  "take_rows df idx =
     (if list_all (\<lambda>i. i < n_rows df) idx
      then Inr \<lparr>n_rows = length idx, cols = map (\<lambda>(l, c). (l, map (\<lambda>i. c ! i) idx)) (cols df)\<rparr>
      else Inl IndexError)"

text \<open>\<^verbatim>\<open>df.sort_values(l)\<close>: the rows in the order the library computes from column \<open>l\<close>.\<close>

definition sort_values :: "pandas \<Rightarrow> dataframe \<Rightarrow> label \<Rightarrow> py_error + dataframe" where
  "sort_values L df l =
     (case get_column df l of
        Inl e \<Rightarrow> Inl e
      | Inr c \<Rightarrow> take_rows df (argsort L (map cell_key c)))"

definition has_column :: "dataframe \<Rightarrow> label \<Rightarrow> bool" where
  "has_column df l = (l \<in> set (map fst (cols df)))"

text \<open>Lines 124 to 127: the conversion and the sort of a frame with a \<^verbatim>\<open>fecha\<close> column.\<close>

definition parse_and_sort :: "pandas \<Rightarrow> dataframe \<Rightarrow> py_error + dataframe" where
  "parse_and_sort L df =
     (if \<not> df_empty df \<and> has_column df (LStr ''fecha'') then
        (case get_column df (LStr ''fecha'') of
           Inl e \<Rightarrow> Inl e
         | Inr c \<Rightarrow>
             (case to_datetime L c of
                Inl e \<Rightarrow> Inl e
              | Inr ts \<Rightarrow> sort_values L (set_column df (LStr ''fecha'') ts) (LStr ''fecha'')))
      else Inr df)"

text \<open>
  The time-series build: \<^verbatim>\<open>pd.DataFrame(payload)\<close> of line 119, 121 or 123 followed
  by lines 124 to 127.
\<close>

definition build_frame :: "pandas \<Rightarrow> json \<Rightarrow> py_error + dataframe" where
  "build_frame L payload =
     (case DataFrame L payload of Inl e \<Rightarrow> Inl e | Inr df \<Rightarrow> parse_and_sort L df)"

text \<open>
  The normalisation of lines 115 to 123: which value of the envelope is handed to the
  \<^verbatim>\<open>DataFrame\<close> constructor. \<open>None\<close>: the envelope has no \<^verbatim>\<open>results\<close>, and line 128
  returns \<^verbatim>\<open>pd.DataFrame()\<close>. The two \<^verbatim>\<open>and\<close> chains short-circuit as in Python.
\<close>

definition select_payload :: "json \<Rightarrow> py_error + json option" where
  "select_payload data =
     (case py_in ''results'' data of
        Inl e \<Rightarrow> Inl e
      | Inr False \<Rightarrow> Inr None
      | Inr True \<Rightarrow>
          (case py_getitem data ''results'' of
             Inl e \<Rightarrow> Inl e
           | Inr results \<Rightarrow>
               (case (if is_dict results then py_in ''detalle'' results else Inr False) of
                  Inl e \<Rightarrow> Inl e
                | Inr True \<Rightarrow> map_sum id Some (py_getitem results ''detalle'')
                | Inr False \<Rightarrow>
                    (case (if is_list results \<and> 0 < length (list_items results)
                           then py_in ''detalle'' (hd (list_items results)) else Inr False) of
                       Inl e \<Rightarrow> Inl e
                     | Inr True \<Rightarrow>
                         map_sum id Some (py_getitem (hd (list_items results)) ''detalle'')
                     | Inr False \<Rightarrow> Inr (Some results)))))"

text \<open>Lines 115 to 128.\<close>

definition frame_of_envelope :: "pandas \<Rightarrow> json \<Rightarrow> py_error + dataframe" where
  "frame_of_envelope L data =
     (case select_payload data of
        Inl e \<Rightarrow> Inl e
      | Inr None \<Rightarrow> Inr empty_frame
      | Inr (Some payload) \<Rightarrow> build_frame L payload)"

text \<open>Lines 106 to 113: the query window and the request.\<close>

definition fetch_envelope :: "'w world \<Rightarrow> int \<Rightarrow> int \<Rightarrow> 'w \<Rightarrow> (py_error + json) \<times> 'w" where
  "fetch_envelope W id_variable dias_atras w =
     (case now_strftime W w of
        (fecha_hasta, w1) \<Rightarrow>
          (case days_ago_strftime W dias_atras w1 of
             (Inl e, w2) \<Rightarrow> (Inl e, w2)
           | (Inr fecha_desde, w2) \<Rightarrow>
               get_variables_monetarias W (Some id_variable) (Some fecha_desde) (Some fecha_hasta) w2))"

definition get_datos_variable ::
  "'w world \<Rightarrow> pandas \<Rightarrow> int \<Rightarrow> int \<Rightarrow> 'w \<Rightarrow> (py_error + dataframe) \<times> 'w" where
  "get_datos_variable W L id_variable dias_atras w =
     (case fetch_envelope W id_variable dias_atras w of
        (Inl e, w1) \<Rightarrow> (Inl e, w1)
      | (Inr data, w1) \<Rightarrow> (frame_of_envelope L data, w1))"

subsection \<open>Loops over identifiers and \<^verbatim>\<open>get_multiple_variables\<close>\<close>

text \<open>
  \<^verbatim>\<open>try: block except Exception as e: handler\<close>. Every \<open>py_error\<close> is an
  \<^verbatim>\<open>Exception\<close>, so the handler receives whatever the block raises.
\<close>

definition try_except ::
  "('w \<Rightarrow> (py_error + 'a) \<times> 'w) \<Rightarrow> (py_error \<Rightarrow> 'w \<Rightarrow> (py_error + 'a) \<times> 'w) \<Rightarrow>
   'w \<Rightarrow> (py_error + 'a) \<times> 'w" where
  "try_except block handler w =
     (case block w of
        (Inl e, w1) \<Rightarrow> handler e w1
      | (Inr v, w1) \<Rightarrow> (Inr v, w1))"

text \<open>
  \<^verbatim>\<open>for x in xs: body\<close> over an accumulator (the dict the loop fills) and the world;
  an exception that leaves the body ends the loop and leaves the function.
\<close>

fun for_loop ::
  "('x \<Rightarrow> 'acc \<Rightarrow> 'w \<Rightarrow> (py_error + 'acc) \<times> 'w) \<Rightarrow> 'x list \<Rightarrow> 'acc \<Rightarrow> 'w \<Rightarrow>
   (py_error + 'acc) \<times> 'w" where
  "for_loop body [] acc w = (Inr acc, w)"
| "for_loop body (x # xs) acc w =
     (case body x acc w of
        (Inl e, w1) \<Rightarrow> (Inl e, w1)
      | (Inr acc1, w1) \<Rightarrow> for_loop body xs acc1 w1)"

text \<open>The body of the loop of \<^verbatim>\<open>get_multiple_variables\<close>, lines 145 to 150.\<close>

definition gmv_body ::
  "'w world \<Rightarrow> pandas \<Rightarrow> int \<Rightarrow> int \<Rightarrow> (int \<rightharpoonup> dataframe) \<Rightarrow> 'w \<Rightarrow>
   (py_error + (int \<rightharpoonup> dataframe)) \<times> 'w" where
  "gmv_body W L dias_atras id_var resultados =
     try_except
       (\<lambda>w. case get_datos_variable W L id_var dias_atras w of
               (Inl e, w1) \<Rightarrow> (Inl e, w1)
             | (Inr df, w1) \<Rightarrow> (Inr (resultados(id_var \<mapsto> df)), w1))
       (\<lambda>e w. (Inr (resultados(id_var \<mapsto> empty_frame)),
                print_line W (''Error al obtener variable '' @ str_int id_var @ '': '' @ str_exc W e) w))"

definition get_multiple_variables ::
  "'w world \<Rightarrow> pandas \<Rightarrow> int list \<Rightarrow> int \<Rightarrow> 'w \<Rightarrow> (py_error + (int \<rightharpoonup> dataframe)) \<times> 'w" where
  "get_multiple_variables W L ids_variables dias_atras w =
     for_loop (gmv_body W L dias_atras) ids_variables Map.empty w"

text \<open>
  For stating what a loop did: the world in which its \<open>k\<close>-th iteration starts, read
  off the loop itself.
\<close>

fun world_at ::
  "('x \<Rightarrow> 'acc \<Rightarrow> 'w \<Rightarrow> (py_error + 'acc) \<times> 'w) \<Rightarrow> 'x list \<Rightarrow> 'acc \<Rightarrow> 'w \<Rightarrow> nat \<Rightarrow> 'w" where
  "world_at body [] acc w k = w"
| "world_at body (x # xs) acc w 0 = w"
| "world_at body (x # xs) acc w (Suc k) =
     (case body x acc w of
        (Inl e, w1) \<Rightarrow> w1
      | (Inr acc1, w1) \<Rightarrow> world_at body xs acc1 w1 k)"

text \<open>
  The outcome of the \<open>k\<close>-th fetch of \<^verbatim>\<open>get_multiple_variables\<close>: what
  \<^verbatim>\<open>get_datos_variable\<close> returned or raised for the \<open>k\<close>-th identifier, when the loop
  called it.
\<close>

definition gmv_outcome ::
  "'w world \<Rightarrow> pandas \<Rightarrow> int list \<Rightarrow> int \<Rightarrow> 'w \<Rightarrow> nat \<Rightarrow> py_error + dataframe" where
  "gmv_outcome W L ids_variables dias_atras w k =
     fst (get_datos_variable W L (ids_variables ! k) dias_atras
            (world_at (gmv_body W L dias_atras) ids_variables Map.empty w k))"

subsection \<open>\<^verbatim>\<open>fetch_datos\<close> of the dashboard generator\<close>

record var_info =
  nombre :: string
  unidad :: string
  archivo :: string

definition VARIABLES :: "(int \<times> var_info) list" where
  "VARIABLES =
     [(1, \<lparr>nombre = ''Reservas Internacionales'', unidad = ''USD millones'', archivo = ''reservas''\<rparr>),
      (4, \<lparr>nombre = ''Tipo de Cambio (B 9791)'', unidad = ''ARS/USD'', archivo = ''tipo_cambio_oficial''\<rparr>),
      (5, \<lparr>nombre = ''TC Referencia (A 3500)'', unidad = ''ARS/USD'', archivo = ''tipo_cambio_referencia''\<rparr>),
      (12, \<lparr>nombre = ''Tasa Plazo Fijo'', unidad = ''% TNA'', archivo = ''tasa_plazo_fijo''\<rparr>),
      (15, \<lparr>nombre = ''Base Monetaria'', unidad = ''millones ARS'', archivo = ''base_monetaria''\<rparr>)]"

definition DIAS_ATRAS :: int where
  "DIAS_ATRAS = 90"

text \<open>One entry of the mapping \<^verbatim>\<open>datos\<close> that \<^verbatim>\<open>fetch_datos\<close> returns.\<close>

record serie =
  serie_nombre :: string
  serie_unidad :: string
  fechas :: "cell list"
  valores :: "cell list"
  ultimo :: "cell option"

text \<open>
  \<^verbatim>\<open>column.dt.strftime('%Y-%m-%d')\<close>: the \<^verbatim>\<open>.dt\<close> accessor raises
  \<^verbatim>\<open>AttributeError\<close> unless the column holds timestamps; \<^verbatim>\<open>NaT\<close> formats to
  \<^verbatim>\<open>NaN\<close>.
\<close>

definition is_datetime :: "cell \<Rightarrow> bool" where
  "is_datetime c = (case c of Timestamp d \<Rightarrow> True | NaT \<Rightarrow> True | _ \<Rightarrow> False)"

definition dt_strftime :: "pandas \<Rightarrow> cell list \<Rightarrow> py_error + cell list" where
  "dt_strftime L c =
     (if list_all is_datetime c
      then Inr (map (\<lambda>x. case x of Timestamp d \<Rightarrow> Obj (JStr (strftime_ymd L d)) | _ \<Rightarrow> NaN) c)
      else Inl AttributeError)"

text \<open>Lines 38 to 47: the entry built from a frame.\<close>

definition make_serie :: "pandas \<Rightarrow> var_info \<Rightarrow> dataframe \<Rightarrow> py_error + serie" where
  "make_serie L info df =
     (case get_column df (LStr ''fecha'') of
        Inl e \<Rightarrow> Inl e
      | Inr fc \<Rightarrow>
          (case dt_strftime L fc of
             Inl e \<Rightarrow> Inl e
           | Inr fs \<Rightarrow>
               (case get_column df (LStr ''valor'') of
                  Inl e \<Rightarrow> Inl e
                | Inr vs \<Rightarrow>
                    Inr \<lparr>serie_nombre = nombre info, serie_unidad = unidad info, fechas = fs,
                         valores = vs, ultimo = (if vs \<noteq> [] then Some (last vs) else None)\<rparr>)))"

text \<open>Lines 35 and 36: the CSV export.\<close>

definition save_csv :: "'w world \<Rightarrow> var_info \<Rightarrow> dataframe \<Rightarrow> 'w \<Rightarrow> (py_error + unit) \<times> 'w" where
  "save_csv W info df w =
     (case os_makedirs W ''data'' w of
        (Inl e, w1) \<Rightarrow> (Inl e, w1)
      | (Inr u, w1) \<Rightarrow> to_csv W (''data/'' @ archivo info @ ''.csv'') df w1)"

text \<open>The body of the loop of \<^verbatim>\<open>fetch_datos\<close>, lines 30 to 51.\<close>

definition fetch_body ::
  "'w world \<Rightarrow> pandas \<Rightarrow> int \<times> var_info \<Rightarrow> (int \<rightharpoonup> serie) \<Rightarrow> 'w \<Rightarrow>
   (py_error + (int \<rightharpoonup> serie)) \<times> 'w" where
  "fetch_body W L var datos w =
     (case var of
        (id_var, info) \<Rightarrow>
          try_except
            (\<lambda>w. case get_datos_variable W L id_var DIAS_ATRAS w of
                    (Inl e, w1) \<Rightarrow> (Inl e, w1)
                  | (Inr df, w1) \<Rightarrow>
                      if \<not> df_empty df then
                        (case save_csv W info df w1 of
                           (Inl e, w2) \<Rightarrow> (Inl e, w2)
                         | (Inr u, w2) \<Rightarrow>
                             (case make_serie L info df of
                                Inl e \<Rightarrow> (Inl e, w2)
                              | Inr s \<Rightarrow> (Inr (datos(id_var \<mapsto> s)), w2)))
                      else (Inr datos, print_line W (''  Sin datos para '' @ nombre info) w1))
            (\<lambda>e w. (Inr datos, print_line W (''  Error: '' @ str_exc W e) w))
            (print_line W (''Consultando '' @ nombre info @ '' (ID '' @ str_int id_var @ '')...'') w))"

definition fetch_datos :: "'w world \<Rightarrow> pandas \<Rightarrow> 'w \<Rightarrow> (py_error + (int \<rightharpoonup> serie)) \<times> 'w" where
  "fetch_datos W L w = for_loop (fetch_body W L) VARIABLES Map.empty w"

text \<open>
  The outcome of the fetch for the \<open>k\<close>-th entry of \<^verbatim>\<open>VARIABLES\<close>, when the loop of
  \<^verbatim>\<open>fetch_datos\<close> called \<^verbatim>\<open>get_datos_variable\<close> (after printing its first line).
\<close>

definition fetch_outcome :: "'w world \<Rightarrow> pandas \<Rightarrow> 'w \<Rightarrow> nat \<Rightarrow> py_error + dataframe" where
  "fetch_outcome W L w k =
     fst (get_datos_variable W L (fst (VARIABLES ! k)) DIAS_ATRAS
            (print_line W (''Consultando '' @ nombre (snd (VARIABLES ! k)) @ '' (ID '' @
                           str_int (fst (VARIABLES ! k)) @ '')...'')
               (world_at (fetch_body W L) VARIABLES Map.empty w k)))"

subsection \<open>What the library's sort promises\<close>

text \<open>
  The order of \<^verbatim>\<open>sort_values\<close> on a timestamp column: ascending, \<^verbatim>\<open>NaT\<close> last
  (\<^verbatim>\<open>na_position='last'\<close>).
\<close>

definition key_le :: "int option \<Rightarrow> int option \<Rightarrow> bool" where
  "key_le a b =
     (case b of
        None \<Rightarrow> True
      | Some y \<Rightarrow> (case a of None \<Rightarrow> False | Some x \<Rightarrow> x \<le> y))"


text \<open>
  Two sorts by insertion that keep this promise. Positions are inserted from the last
  to the first; a position goes in front of the first position whose key is not
  smaller (\<open>ties_last = False\<close>: equal keys stay in input order) or in front of the
  first whose key is greater (\<open>ties_last = True\<close>: equal keys end up reversed).
\<close>

fun insert_pos :: "bool \<Rightarrow> int option list \<Rightarrow> nat \<Rightarrow> nat list \<Rightarrow> nat list" where
  "insert_pos ties_last ks i [] = [i]"
| "insert_pos ties_last ks i (j # js) =
     (if (if ties_last then \<not> key_le (ks ! j) (ks ! i) else key_le (ks ! i) (ks ! j))
      then i # j # js
      else j # insert_pos ties_last ks i js)"

definition insertion_argsort :: "bool \<Rightarrow> int option list \<Rightarrow> nat list" where
  "insertion_argsort ties_last ks = foldr (insert_pos ties_last ks) [0..<length ks] []"

subsection \<open>The normaliser as the specification words it\<close>

text \<open>
  The resolution order of the specification's Response Normalizer on an envelope that
  is a mapping: no \<^verbatim>\<open>results\<close>, the empty list; \<^verbatim>\<open>results\<close> a mapping containing
  \<^verbatim>\<open>detalle\<close>, that nested value; \<^verbatim>\<open>results\<close> a non-empty list whose first element is
  a mapping containing \<^verbatim>\<open>detalle\<close>, that nested value; otherwise \<^verbatim>\<open>results\<close> itself.
\<close>

definition normalize_spec :: "(string \<times> json) list \<Rightarrow> json" where
  "normalize_spec envelope =
     (case map_of envelope ''results'' of
        None \<Rightarrow> JArr []
      | Some results \<Rightarrow>
          (case results of
             JObj m \<Rightarrow> (case map_of m ''detalle'' of Some d \<Rightarrow> d | None \<Rightarrow> results)
           | JArr (JObj m # rest) \<Rightarrow> (case map_of m ''detalle'' of Some d \<Rightarrow> d | None \<Rightarrow> results)
           | _ \<Rightarrow> results))"

text \<open>
  An envelope whose \<^verbatim>\<open>results\<close>, when it is a non-empty list, starts with a mapping
  (as a list of records does).
\<close>

definition first_is_record :: "(string \<times> json) list \<Rightarrow> bool" where
  "first_is_record envelope =
     (case map_of envelope ''results'' of
        Some (JArr (x # xs)) \<Rightarrow> is_dict x
      | _ \<Rightarrow> True)"

text \<open>A record list that is empty or whose first record has no field \<^verbatim>\<open>detalle\<close>.\<close>

definition first_without_detalle :: "(string \<times> json) list list \<Rightarrow> bool" where
  "first_without_detalle recs =
     (case recs of [] \<Rightarrow> True | r # rs \<Rightarrow> map_of r ''detalle'' = None)"

definition is_scalar :: "json \<Rightarrow> bool" where
  "is_scalar x =
     (case x of JNull \<Rightarrow> True | JBool b \<Rightarrow> True | JInt i \<Rightarrow> True | JFloat f \<Rightarrow> True | _ \<Rightarrow> False)"

subsection \<open>An example environment\<close>

text \<open>
  A library instance: three ISO dates parse (to their day numbers), missing values
  become \<^verbatim>\<open>NaT\<close>, every other value raises; the sort is one of the two insertion
  sorts above; payloads that are not record lists are refused.
\<close>

definition example_dates :: "(string \<times> int) list" where
  "example_dates = [(''2024-01-01'', 19723), (''2024-01-02'', 19724), (''2024-01-03'', 19725)]"

definition example_to_datetime_cell :: "cell list \<Rightarrow> cell \<Rightarrow> py_error + int option" where
  "example_to_datetime_cell col c =
     (case c of
        NaN \<Rightarrow> Inr None
      | NaT \<Rightarrow> Inr None
      | Timestamp d \<Rightarrow> Inr (Some d)
      | Obj JNull \<Rightarrow> Inr None
      | Obj (JStr s) \<Rightarrow>
          (case map_of example_dates s of Some d \<Rightarrow> Inr (Some d) | None \<Rightarrow> Inl (ValueError s))
      | Obj x \<Rightarrow> Inl TypeError)"

definition example_pandas :: "bool \<Rightarrow> pandas" where
  "example_pandas ties_last =
     \<lparr>frame_of_other = (\<lambda>data. Inl (ValueError ''DataFrame constructor not properly called!'')),
      to_datetime_cell = example_to_datetime_cell,
      argsort = insertion_argsort ties_last,
      strftime_ymd = (\<lambda>d. case map_of (map (\<lambda>(s, t). (t, s)) example_dates) d of
                             Some s \<Rightarrow> s | None \<Rightarrow> ''?'')\<rparr>"

definition obs :: "string \<Rightarrow> int \<Rightarrow> json" where
  "obs fecha valor = JObj [(''fecha'', JStr fecha), (''valor'', JInt valor)]"

text \<open>
  A world whose state counts the requests made: a request gets the status and body
  that the list \<open>answers\<close> holds at that count, and no response beyond the list; the
  clock, the console and the file system never fail.
\<close>

definition example_world :: "(nat \<times> json option) list \<Rightarrow> nat world" where
  "example_world answers =
     \<lparr>session_get = (\<lambda>url params n.
        (if n < length answers then Response (fst (answers ! n)) (snd (answers ! n))
         else NoResponse ''timed out'', Suc n)),
      now_strftime = (\<lambda>n. (''2024-01-31'', n)),
      days_ago_strftime = (\<lambda>d n. (Inr ''2024-01-01'', n)),
      print_line = (\<lambda>s n. n),
      str_exc = (\<lambda>e. ''error''),
      os_makedirs = (\<lambda>path n. (Inr (), n)),
      to_csv = (\<lambda>path df n. (Inr (), n))\<rparr>"

text \<open>
  Two answers of the API, a series of two observations and then a server error, and
  the frame \<^verbatim>\<open>get_datos_variable\<close> builds from the first.
\<close>

definition example_answers :: "(nat \<times> json option) list" where
  "example_answers =
     [(200, Some (JObj [(''results'', JArr [obs ''2024-01-02'' 5, obs ''2024-01-01'' 3])])),
      (500, None)]"

definition example_frame :: dataframe where
  "example_frame = \<lparr>n_rows = 2, cols = [(LStr ''fecha'', [Timestamp 19723, Timestamp 19724]),
                              (LStr ''valor'', [Obj (JInt 3), Obj (JInt 5)])]\<rparr>"


section \<open>Properties\<close>

subsection \<open>The normalisation, shape by shape\<close>

lemma in_keys_iff: "k \<in> fst ` set m \<longleftrightarrow> map_of m k \<noteq> None"
  by (simp add: map_of_eq_None_iff)

lemma select_payload_absent:
  "map_of envelope ''results'' = None \<Longrightarrow> select_payload (JObj envelope) = Inr None"
  by (simp add: select_payload_def in_keys_iff)

lemma select_payload_mapping:
  "map_of envelope ''results'' = Some (JObj m) \<Longrightarrow>
   select_payload (JObj envelope) =
     Inr (Some (case map_of m ''detalle'' of Some d \<Rightarrow> d | None \<Rightarrow> JObj m))"
  by (cases "map_of m ''detalle''") (simp_all add: select_payload_def in_keys_iff)

lemma select_payload_first_mapping:
  "map_of envelope ''results'' = Some (JArr (JObj m # rest)) \<Longrightarrow>
   select_payload (JObj envelope) =
     Inr (Some (case map_of m ''detalle'' of Some d \<Rightarrow> d | None \<Rightarrow> JArr (JObj m # rest)))"
  by (cases "map_of m ''detalle''") (simp_all add: select_payload_def in_keys_iff)

lemma select_payload_empty_list:
  "map_of envelope ''results'' = Some (JArr []) \<Longrightarrow>
   select_payload (JObj envelope) = Inr (Some (JArr []))"
  by (simp add: select_payload_def in_keys_iff)

lemma select_payload_other:
  "map_of envelope ''results'' = Some results \<Longrightarrow> \<not> is_dict results \<Longrightarrow> \<not> is_list results \<Longrightarrow>
   select_payload (JObj envelope) = Inr (Some results)"
  by (simp add: select_payload_def in_keys_iff)

lemma select_payload_first_scalar:
  "map_of envelope ''results'' = Some (JArr (x # rest)) \<Longrightarrow> is_scalar x \<Longrightarrow>
   select_payload (JObj envelope) = Inl TypeError"
  by (cases x) (simp_all add: select_payload_def in_keys_iff is_scalar_def)

lemma build_frame_nil: "build_frame L (JArr []) = Inr empty_frame"
  by (simp add: build_frame_def DataFrame_def frame_of_records_def first_seen_def empty_frame_def
      parse_and_sort_def df_empty_def)


text \<open>
  Claim C1, as amended. For every envelope that is a mapping and whose \<^verbatim>\<open>results\<close>,
  when it is a non-empty list, starts with a mapping, the code resolves the payload in
  the order the specification gives: no \<^verbatim>\<open>results\<close>, no payload and the empty frame
  (the frame of the empty record list); \<^verbatim>\<open>results\<close> a mapping containing
  \<^verbatim>\<open>detalle\<close>, that nested value; \<^verbatim>\<open>results\<close> a non-empty list whose first element
  contains \<^verbatim>\<open>detalle\<close>, that element's nested value; otherwise \<^verbatim>\<open>results\<close> itself.
\<close>

theorem normalize_precedence:
  assumes "first_is_record envelope"
  shows "select_payload (JObj envelope) =
           Inr (case map_of envelope ''results'' of
                  None \<Rightarrow> None
                | Some results \<Rightarrow> Some (normalize_spec envelope)) \<and>
         frame_of_envelope L (JObj envelope) = build_frame L (normalize_spec envelope)"
proof (cases "map_of envelope ''results''")
  case None
  then show ?thesis
    by (simp add: select_payload_absent frame_of_envelope_def normalize_spec_def build_frame_nil)
next
  case (Some results)
  have sel: "select_payload (JObj envelope) = Inr (Some (normalize_spec envelope))"
  proof (cases results)
    case (JObj m)
    with Some show ?thesis
      by (simp add: select_payload_mapping normalize_spec_def)
  next
    case (JArr xs)
    show ?thesis
    proof (cases xs)
      case Nil
      with Some JArr show ?thesis
        by (simp add: select_payload_empty_list normalize_spec_def)
    next
      case (Cons x rest)
      with assms Some JArr obtain m where "x = JObj m"
        by (cases x) (simp_all add: first_is_record_def)
      with Some JArr Cons show ?thesis
        by (simp add: select_payload_first_mapping normalize_spec_def)
    qed
  qed (use Some in \<open>simp_all add: select_payload_other normalize_spec_def\<close>)
  with Some show ?thesis
    by (simp add: frame_of_envelope_def)
qed

theorem normalize_precedence_witness:
  "first_is_record [(''results'', JObj [(''detalle'', JArr [obs ''2024-01-02'' 5, obs ''2024-01-01'' 3])])] \<and>
   select_payload (JObj [(''results'', JObj [(''detalle'', JArr [obs ''2024-01-02'' 5, obs ''2024-01-01'' 3])])]) =
     Inr (Some (JArr [obs ''2024-01-02'' 5, obs ''2024-01-01'' 3])) \<and>
   frame_of_envelope (example_pandas False)
     (JObj [(''results'', JObj [(''detalle'', JArr [obs ''2024-01-02'' 5, obs ''2024-01-01'' 3])])]) =
     build_frame (example_pandas False) (JArr [obs ''2024-01-02'' 5, obs ''2024-01-01'' 3])"
  using normalize_precedence [of "[(''results'', JObj [(''detalle'', JArr [obs ''2024-01-02'' 5, obs ''2024-01-01'' 3])])]"
      "example_pandas False"]
  by (simp add: first_is_record_def normalize_spec_def)


text \<open>
  The claim as stated, for every envelope, fails: when the first element of the list
  is a number, the membership test of line 120 raises \<^verbatim>\<open>TypeError\<close>, where the
  specification's order yields \<^verbatim>\<open>results\<close> itself.
\<close>

theorem normalize_scalar_first_counterexample:
  "select_payload (JObj [(''results'', JArr [JInt 1, JInt 2])]) = Inl TypeError \<and>
   normalize_spec [(''results'', JArr [JInt 1, JInt 2])] = JArr [JInt 1, JInt 2] \<and>
   frame_of_envelope (example_pandas False) (JObj [(''results'', JArr [JInt 1, JInt 2])]) = Inl TypeError"
  by (simp add: select_payload_def normalize_spec_def frame_of_envelope_def)


text \<open>
  Claim C5, as amended. For every record list that is empty or whose first record has
  no field named \<^verbatim>\<open>detalle\<close>, the three encodings (the flat list under
  \<^verbatim>\<open>results\<close>, a mapping under \<^verbatim>\<open>results\<close> holding the list under \<^verbatim>\<open>detalle\<close>, a
  one-element list under \<^verbatim>\<open>results\<close> whose element holds the list under
  \<^verbatim>\<open>detalle\<close>) normalise to that record list, whatever else the envelope and the
  mappings hold.
\<close>

theorem encodings_agree:
  assumes "first_without_detalle recs"
    and "map_of flat ''results'' = Some (JArr (map JObj recs))"
    and "map_of nested ''results'' = Some (JObj m)"
    and "map_of m ''detalle'' = Some (JArr (map JObj recs))"
    and "map_of listed ''results'' = Some (JArr [JObj m'])"
    and "map_of m' ''detalle'' = Some (JArr (map JObj recs))"
  shows "select_payload (JObj flat) = Inr (Some (JArr (map JObj recs))) \<and>
         select_payload (JObj nested) = Inr (Some (JArr (map JObj recs))) \<and>
         select_payload (JObj listed) = Inr (Some (JArr (map JObj recs)))"
proof -
  have "select_payload (JObj flat) = Inr (Some (JArr (map JObj recs)))"
  proof (cases recs)
    case Nil
    with assms(2) show ?thesis by (simp add: select_payload_empty_list)
  next
    case (Cons r rs)
    with assms(1) have "map_of r ''detalle'' = None"
      by (simp add: first_without_detalle_def)
    with assms(2) Cons show ?thesis
      by (simp add: select_payload_first_mapping)
  qed
  moreover have "select_payload (JObj nested) = Inr (Some (JArr (map JObj recs)))"
    using assms(3,4) by (simp add: select_payload_mapping)
  moreover have "select_payload (JObj listed) = Inr (Some (JArr (map JObj recs)))"
    using assms(5,6) by (simp add: select_payload_first_mapping)
  ultimately show ?thesis by simp
qed


theorem encodings_agree_witness:
  "first_without_detalle [[(''fecha'', JStr ''2024-01-02''), (''valor'', JInt 5)]] \<and>
   select_payload (JObj [(''status'', JInt 200), (''results'', JArr [obs ''2024-01-02'' 5])]) =
     Inr (Some (JArr [obs ''2024-01-02'' 5])) \<and>
   select_payload (JObj [(''results'', JObj [(''idVariable'', JInt 1), (''detalle'', JArr [obs ''2024-01-02'' 5])])]) =
     Inr (Some (JArr [obs ''2024-01-02'' 5])) \<and>
   select_payload (JObj [(''results'', JArr [JObj [(''idVariable'', JInt 1), (''detalle'', JArr [obs ''2024-01-02'' 5])]])]) =
     Inr (Some (JArr [obs ''2024-01-02'' 5]))"
  using encodings_agree [of "[[(''fecha'', JStr ''2024-01-02''), (''valor'', JInt 5)]]"
      "[(''status'', JInt 200), (''results'', JArr [obs ''2024-01-02'' 5])]"
      "[(''results'', JObj [(''idVariable'', JInt 1), (''detalle'', JArr [obs ''2024-01-02'' 5])])]"
      "[(''idVariable'', JInt 1), (''detalle'', JArr [obs ''2024-01-02'' 5])]"
      "[(''results'', JArr [JObj [(''idVariable'', JInt 1), (''detalle'', JArr [obs ''2024-01-02'' 5])]])]"
      "[(''idVariable'', JInt 1), (''detalle'', JArr [obs ''2024-01-02'' 5])]"]
  by (simp add: first_without_detalle_def obs_def)


text \<open>
  For every record list the claim fails: a flat list whose first record has a field
  \<^verbatim>\<open>detalle\<close> is read as the third encoding, and the value of that field is taken
  for the payload.
\<close>

theorem encodings_differ_counterexample:
  "select_payload (JObj [(''results'',
       JArr [JObj [(''fecha'', JStr ''2024-01-02''), (''valor'', JInt 5), (''detalle'', JStr ''provisorio'')]])]) =
     Inr (Some (JStr ''provisorio'')) \<and>
   select_payload (JObj [(''results'', JObj [(''detalle'',
       JArr [JObj [(''fecha'', JStr ''2024-01-02''), (''valor'', JInt 5), (''detalle'', JStr ''provisorio'')]])])]) =
     Inr (Some (JArr [JObj [(''fecha'', JStr ''2024-01-02''), (''valor'', JInt 5), (''detalle'', JStr ''provisorio'')]]))"
  by (simp add: select_payload_def)

subsection \<open>Frames of record lists\<close>















text \<open>The definitions an evaluation of \<open>build_frame\<close> in the example library unfolds.\<close>

lemmas frame_eval =
  build_frame_def DataFrame_def obs_def frame_of_records_def first_seen_def record_cell_def
  parse_and_sort_def df_empty_def has_column_def get_column_def to_datetime_def
  example_pandas_def example_to_datetime_cell_def example_dates_def datetime_cell_def
  sort_values_def set_column_def cell_key_def take_rows_def insertion_argsort_def key_le_def


subsection \<open>The two insertion sorts keep the library's promise\<close>












subsection \<open>Records without a date\<close>





subsection \<open>One bad date fails the whole build\<close>




subsection \<open>The order of the built series\<close>











subsection \<open>The loops\<close>

text \<open>
  A loop whose body never raises and either leaves the dict alone or stores one entry
  under the key of its item: the loop never raises, keys of no item keep their entry,
  and with distinct keys the entry of each item is the one its own iteration stored.
\<close>

lemma for_loop_updates:
  assumes body: "\<And>x acc w. \<exists>u. Q x w u \<and>
      fst (body x acc w) = Inr (case u of None \<Rightarrow> acc | Some v \<Rightarrow> acc(key x \<mapsto> v))"
  shows "\<exists>res. fst (for_loop body xs acc w) = Inr res \<and>
           (\<forall>y. y \<notin> key ` set xs \<longrightarrow> res y = acc y) \<and>
           (distinct (map key xs) \<longrightarrow>
              (\<forall>k<length xs. \<exists>u. Q (xs ! k) (world_at body xs acc w k) u \<and>
                 res (key (xs ! k)) = (case u of None \<Rightarrow> acc (key (xs ! k)) | Some v \<Rightarrow> Some v)))"
proof (induction xs arbitrary: acc w)
  case Nil
  then show ?case by simp
next
  case (Cons x xs)
  obtain u where u: "Q x w u"
    and step: "fst (body x acc w) = Inr (case u of None \<Rightarrow> acc | Some v \<Rightarrow> acc(key x \<mapsto> v))"
    using body by blast
  define acc1 where "acc1 = (case u of None \<Rightarrow> acc | Some v \<Rightarrow> acc(key x \<mapsto> v))"
  define w1 where "w1 = snd (body x acc w)"
  have bxw: "body x acc w = (Inr acc1, w1)"
    using step by (simp add: acc1_def w1_def prod_eq_iff)
  obtain res where res: "fst (for_loop body xs acc1 w1) = Inr res"
    and keep: "\<forall>y. y \<notin> key ` set xs \<longrightarrow> res y = acc1 y"
    and each: "distinct (map key xs) \<longrightarrow>
              (\<forall>k<length xs. \<exists>u. Q (xs ! k) (world_at body xs acc1 w1 k) u \<and>
                 res (key (xs ! k)) = (case u of None \<Rightarrow> acc1 (key (xs ! k)) | Some v \<Rightarrow> Some v))"
    using Cons.IH [of acc1 w1] by blast
  have acc1_other: "\<And>y. y \<noteq> key x \<Longrightarrow> acc1 y = acc y"
    by (simp add: acc1_def split: option.splits)
  have acc1_x: "acc1 (key x) = (case u of None \<Rightarrow> acc (key x) | Some v \<Rightarrow> Some v)"
    by (simp add: acc1_def split: option.splits)
  have "fst (for_loop body (x # xs) acc w) = Inr res"
    using bxw res by simp
  moreover have "\<forall>y. y \<notin> key ` set (x # xs) \<longrightarrow> res y = acc y"
    using keep acc1_other by auto
  moreover have "distinct (map key (x # xs)) \<longrightarrow>
              (\<forall>k<length (x # xs). \<exists>u. Q ((x # xs) ! k) (world_at body (x # xs) acc w k) u \<and>
                 res (key ((x # xs) ! k)) =
                   (case u of None \<Rightarrow> acc (key ((x # xs) ! k)) | Some v \<Rightarrow> Some v))"
  proof (intro impI allI)
    fix k assume d: "distinct (map key (x # xs))" and k: "k < length (x # xs)"
    show "\<exists>u. Q ((x # xs) ! k) (world_at body (x # xs) acc w k) u \<and>
                 res (key ((x # xs) ! k)) =
                   (case u of None \<Rightarrow> acc (key ((x # xs) ! k)) | Some v \<Rightarrow> Some v)"
    proof (cases k)
      case 0
      from d have "key x \<notin> key ` set xs" by simp
      with keep have "res (key x) = acc1 (key x)" by blast
      with u acc1_x 0 show ?thesis
        by (intro exI [of _ u]) (simp split: option.splits)
    next
      case (Suc j)
      with k have j: "j < length xs" by simp
      from d have dxs: "distinct (map key xs)" by simp
      from j have "key (xs ! j) \<in> key ` set xs" by simp
      moreover from d have "key x \<notin> key ` set xs" by simp
      ultimately have ne: "key (xs ! j) \<noteq> key x" by metis
      from each dxs j obtain u' where "Q (xs ! j) (world_at body xs acc1 w1 j) u'"
        and "res (key (xs ! j)) = (case u' of None \<Rightarrow> acc1 (key (xs ! j)) | Some v \<Rightarrow> Some v)"
        by blast
      with Suc bxw acc1_other [OF ne] show ?thesis
        by (intro exI [of _ u']) (simp split: option.splits)
    qed
  qed
  ultimately show ?case by blast
qed

lemma gmv_body_result:
  "fst (gmv_body W L dias_atras id_var resultados w) =
     Inr (resultados(id_var \<mapsto>
        (case fst (get_datos_variable W L id_var dias_atras w) of
           Inl e \<Rightarrow> empty_frame | Inr df \<Rightarrow> df)))"
  by (simp add: gmv_body_def try_except_def split: prod.splits sum.splits)

lemma fetch_body_result:
  "\<exists>u. (u \<noteq> None \<longrightarrow>
          (\<exists>df. fst (get_datos_variable W L (fst var) DIAS_ATRAS
                       (print_line W (''Consultando '' @ nombre (snd var) @ '' (ID '' @
                          str_int (fst var) @ '')...'') w)) = Inr df \<and> \<not> df_empty df)) \<and>
       fst (fetch_body W L var datos w) =
         Inr (case u of None \<Rightarrow> datos | Some s \<Rightarrow> datos(fst var \<mapsto> s))"
proof -
  obtain id_var info where var: "var = (id_var, info)" by (cases var)
  let ?w0 = "print_line W (''Consultando '' @ nombre info @ '' (ID '' @ str_int id_var @ '')...'') w"
  obtain r w1 where got: "get_datos_variable W L id_var DIAS_ATRAS ?w0 = (r, w1)"
    by (cases "get_datos_variable W L id_var DIAS_ATRAS ?w0")
  show ?thesis
  proof (cases r)
    case (Inl e)
    with var got have "fst (fetch_body W L var datos w) = Inr datos"
      by (simp add: fetch_body_def try_except_def)
    then show ?thesis by (intro exI [of _ None]) simp
  next
    case (Inr df)
    show ?thesis
    proof (cases "df_empty df")
      case True
      with var got Inr have "fst (fetch_body W L var datos w) = Inr datos"
        by (simp add: fetch_body_def try_except_def)
      then show ?thesis by (intro exI [of _ None]) simp
    next
      case False
      obtain r2 w2 where saved: "save_csv W info df w1 = (r2, w2)"
        by (cases "save_csv W info df w1")
      show ?thesis
      proof (cases "case r2 of Inl e \<Rightarrow> None | Inr u \<Rightarrow>
                      (case make_serie L info df of Inl e \<Rightarrow> None | Inr s \<Rightarrow> Some s)")
        case None
        with var got Inr False saved have "fst (fetch_body W L var datos w) = Inr datos"
          by (simp add: fetch_body_def try_except_def split: sum.splits)
        then show ?thesis by (intro exI [of _ None]) simp
      next
        case (Some s)
        with var got Inr False saved
        have "fst (fetch_body W L var datos w) = Inr (datos(fst var \<mapsto> s))"
          by (simp add: fetch_body_def try_except_def split: sum.splits)
        with var got Inr False show ?thesis by (intro exI [of _ "Some s"]) simp
      qed
    qed
  qed
qed

lemma VARIABLES_distinct: "distinct (map fst VARIABLES)"
  by (simp add: VARIABLES_def)


text \<open>The example world, step by step.\<close>

lemmas fetch_eval =
  get_datos_variable_def fetch_envelope_def get_variables_monetarias_def http_get_json_def
  example_world_def raise_for_status_def response_json_def frame_of_envelope_def
  select_payload_def

lemma example_first_fetch:
  "get_datos_variable (example_world example_answers) (example_pandas False) i d 0 =
     (Inr example_frame, 1)"
  by (simp add: fetch_eval frame_eval example_answers_def example_frame_def)

lemma example_second_fetch:
  "get_datos_variable (example_world example_answers) (example_pandas False) i d (Suc 0) =
     (Inl (HTTPError 500), 2)"
  by (simp add: fetch_eval example_answers_def)

lemma example_print: "print_line (example_world a) s n = n"
  by (simp add: example_world_def)

lemma example_files:
  "os_makedirs (example_world a) path n = (Inr (), n)"
  "to_csv (example_world a) path df n = (Inr (), n)"
  by (simp_all add: example_world_def)

lemma example_frame_nonempty: "\<not> df_empty example_frame"
  by (simp add: example_frame_def df_empty_def)

lemma example_serie:
  "make_serie (example_pandas False) info example_frame =
     Inr \<lparr>serie_nombre = nombre info, serie_unidad = unidad info,
          fechas = [Obj (JStr ''2024-01-01''), Obj (JStr ''2024-01-02'')],
          valores = [Obj (JInt 3), Obj (JInt 5)], ultimo = Some (Obj (JInt 5))\<rparr>"
  by (simp add: make_serie_def example_frame_def get_column_def dt_strftime_def
      is_datetime_def example_pandas_def example_dates_def)

lemma example_first_body:
  "fetch_body (example_world example_answers) (example_pandas False) (i, info) datos 0 =
     (Inr (datos(i \<mapsto> \<lparr>serie_nombre = nombre info, serie_unidad = unidad info,
             fechas = [Obj (JStr ''2024-01-01''), Obj (JStr ''2024-01-02'')],
             valores = [Obj (JInt 3), Obj (JInt 5)], ultimo = Some (Obj (JInt 5))\<rparr>)), 1)"
  by (simp add: fetch_body_def try_except_def example_print example_first_fetch example_files
      save_csv_def example_frame_nonempty example_serie)


subsection \<open>Batch isolation\<close>

text \<open>
  Claim C2. For every list of distinct identifiers and whatever each fetch does
  (returns a frame, or raises in the transport, the normalisation or the date
  parsing), \<^verbatim>\<open>get_multiple_variables\<close> does not raise and returns a map with exactly
  one entry per requested identifier: the frame its fetch returned, or the empty frame
  when its fetch raised.
\<close>

theorem batch_isolates_failures:
  assumes "distinct ids"
  shows "\<exists>res. fst (get_multiple_variables W L ids dias_atras w) = Inr res \<and>
           dom res = set ids \<and> card (dom res) = length ids \<and>
           (\<forall>k<length ids. res (ids ! k) =
              Some (case gmv_outcome W L ids dias_atras w k of
                      Inl e \<Rightarrow> empty_frame | Inr df \<Rightarrow> df))"
proof -
  let ?Q = "\<lambda>i w u. u = Some (case fst (get_datos_variable W L i dias_atras w) of
                                Inl e \<Rightarrow> empty_frame | Inr df \<Rightarrow> df)"
  have "\<And>x acc w. \<exists>u. ?Q x w u \<and>
      fst (gmv_body W L dias_atras x acc w) = Inr (case u of None \<Rightarrow> acc | Some v \<Rightarrow> acc(id x \<mapsto> v))"
    by (simp add: gmv_body_result)
  from for_loop_updates [of ?Q "gmv_body W L dias_atras" id ids Map.empty w, OF this]
  obtain res where res: "fst (for_loop (gmv_body W L dias_atras) ids Map.empty w) = Inr res"
    and keep: "\<forall>y. y \<notin> set ids \<longrightarrow> res y = None"
    and each: "\<forall>k<length ids. res (ids ! k) =
        Some (case fst (get_datos_variable W L (ids ! k) dias_atras
                         (world_at (gmv_body W L dias_atras) ids Map.empty w k)) of
                Inl e \<Rightarrow> empty_frame | Inr df \<Rightarrow> df)"
    using assms by auto
  have "dom res = set ids"
  proof
    show "dom res \<subseteq> set ids" using keep by (auto simp add: dom_def)
    show "set ids \<subseteq> dom res"
    proof
      fix i assume "i \<in> set ids"
      then obtain k where "k < length ids" "ids ! k = i" by (auto simp add: in_set_conv_nth)
      with each show "i \<in> dom res" by (auto simp add: dom_def)
    qed
  qed
  moreover from this assms have "card (dom res) = length ids"
    by (simp add: distinct_card)
  ultimately show ?thesis
    using res each by (auto simp add: get_multiple_variables_def gmv_outcome_def)
qed

theorem batch_isolates_failures_witness:
  "\<exists>res. fst (get_multiple_variables (example_world example_answers) (example_pandas False) [1, 4] 30 0) = Inr res \<and>
         dom res = {1, 4} \<and> card (dom res) = 2 \<and>
         res 1 = Some example_frame \<and> res 4 = Some empty_frame"
proof -
  let ?W = "example_world example_answers" and ?L = "example_pandas False"
  have o0: "gmv_outcome ?W ?L [1, 4] 30 0 0 = Inr example_frame"
    by (simp add: gmv_outcome_def example_first_fetch)
  have o1: "gmv_outcome ?W ?L [1, 4] 30 0 1 = Inl (HTTPError 500)"
    by (simp add: gmv_outcome_def gmv_body_def try_except_def example_first_fetch
        example_second_fetch)
  have "distinct [1, 4 :: int]" by simp
  from batch_isolates_failures [OF this, of ?W ?L 30 0]
  obtain res where "fst (get_multiple_variables ?W ?L [1, 4] 30 0) = Inr res"
    and "dom res = set [1, 4]" and "card (dom res) = length [1, 4 :: int]"
    and each: "\<forall>k<length [1, 4 :: int]. res ([1, 4] ! k) =
              Some (case gmv_outcome ?W ?L [1, 4] 30 0 k of
                      Inl e \<Rightarrow> empty_frame | Inr df \<Rightarrow> df)"
    by blast
  moreover from each [rule_format, of 0] o0 have "res 1 = Some example_frame" by simp
  moreover from each [rule_format, of 1] o1 have "res 4 = Some empty_frame" by simp
  ultimately show ?thesis by (intro exI [of _ res]) simp
qed


subsection \<open>The entries of the dashboard's mapping\<close>

text \<open>
  Claim C8. \<^verbatim>\<open>fetch_datos\<close> does not raise, and the mapping it returns has an entry
  only for identifiers of \<^verbatim>\<open>VARIABLES\<close> whose fetch returned a non-empty frame; an
  identifier whose fetch raised or returned an empty frame has no entry at all.
\<close>

theorem fetch_datos_entries:
  "\<exists>datos. fst (fetch_datos W L w) = Inr datos \<and>
     (\<forall>i. i \<in> dom datos \<longrightarrow>
        (\<exists>k<length VARIABLES. fst (VARIABLES ! k) = i \<and>
           (\<exists>df. fetch_outcome W L w k = Inr df \<and> \<not> df_empty df))) \<and>
     (\<forall>k<length VARIABLES.
        (\<forall>df. fetch_outcome W L w k = Inr df \<longrightarrow> df_empty df) \<longrightarrow>
        fst (VARIABLES ! k) \<notin> dom datos)"
proof -
  let ?Q = "\<lambda>var w u. u \<noteq> None \<longrightarrow>
          (\<exists>df. fst (get_datos_variable W L (fst var) DIAS_ATRAS
                       (print_line W (''Consultando '' @ nombre (snd var) @ '' (ID '' @
                          str_int (fst var) @ '')...'') w)) = Inr df \<and> \<not> df_empty df)"
  have "\<And>x acc w. \<exists>u. ?Q x w u \<and>
      fst (fetch_body W L x acc w) = Inr (case u of None \<Rightarrow> acc | Some v \<Rightarrow> acc(fst x \<mapsto> v))"
    by (rule fetch_body_result)
  from for_loop_updates [of ?Q "fetch_body W L" fst VARIABLES Map.empty w, OF this]
  obtain datos where datos: "fst (for_loop (fetch_body W L) VARIABLES Map.empty w) = Inr datos"
    and keep: "\<forall>y. y \<notin> fst ` set VARIABLES \<longrightarrow> datos y = None"
    and each: "\<forall>k<length VARIABLES. \<exists>u.
        ?Q (VARIABLES ! k) (world_at (fetch_body W L) VARIABLES Map.empty w k) u \<and>
        datos (fst (VARIABLES ! k)) = (case u of None \<Rightarrow> None | Some v \<Rightarrow> Some v)"
    using VARIABLES_distinct by auto
  have good: "\<exists>df. fetch_outcome W L w k = Inr df \<and> \<not> df_empty df"
    if "k < length VARIABLES" and "fst (VARIABLES ! k) \<in> dom datos" for k
  proof -
    from each that(1) obtain u where
      q: "?Q (VARIABLES ! k) (world_at (fetch_body W L) VARIABLES Map.empty w k) u"
      and d: "datos (fst (VARIABLES ! k)) = (case u of None \<Rightarrow> None | Some v \<Rightarrow> Some v)"
      by blast
    from that(2) d have "u \<noteq> None" by (cases u) (auto simp add: dom_def)
    with q show ?thesis by (simp add: fetch_outcome_def)
  qed
  have "\<exists>k<length VARIABLES. fst (VARIABLES ! k) = i \<and>
           (\<exists>df. fetch_outcome W L w k = Inr df \<and> \<not> df_empty df)"
    if "i \<in> dom datos" for i
  proof -
    from that keep have "i \<in> fst ` set VARIABLES" by (auto simp add: dom_def)
    then obtain k where "k < length VARIABLES" "fst (VARIABLES ! k) = i"
      by (auto simp add: in_set_conv_nth)
    with that good show ?thesis by blast
  qed
  moreover have "fst (VARIABLES ! k) \<notin> dom datos"
    if "k < length VARIABLES" and "\<forall>df. fetch_outcome W L w k = Inr df \<longrightarrow> df_empty df" for k
    using good [OF that(1)] that(2) by blast
  ultimately show ?thesis
    using datos by (auto simp add: fetch_datos_def)
qed

theorem fetch_datos_entries_witness:
  "\<exists>datos. fst (fetch_datos (example_world example_answers) (example_pandas False) 0) = Inr datos \<and>
           1 \<in> dom datos \<and> 4 \<notin> dom datos"
proof -
  let ?W = "example_world example_answers" and ?L = "example_pandas False"
  let ?s = "\<lparr>serie_nombre = ''Reservas Internacionales'', serie_unidad = ''USD millones'',
             fechas = [Obj (JStr ''2024-01-01''), Obj (JStr ''2024-01-02'')],
             valores = [Obj (JInt 3), Obj (JInt 5)], ultimo = Some (Obj (JInt 5))\<rparr>"
  have o1: "fetch_outcome ?W ?L 0 1 = Inl (HTTPError 500)"
    by (simp add: fetch_outcome_def VARIABLES_def example_print example_first_body
        example_second_fetch)
  from fetch_datos_entries [of ?W ?L 0]
  obtain datos where run: "fst (fetch_datos ?W ?L 0) = Inr datos"
    and omit: "\<forall>k<length VARIABLES.
        (\<forall>df. fetch_outcome ?W ?L 0 k = Inr df \<longrightarrow> df_empty df) \<longrightarrow>
        fst (VARIABLES ! k) \<notin> dom datos"
    by blast
  from omit [rule_format, of 1] o1 have "4 \<notin> dom datos"
    by (simp add: VARIABLES_def)
  moreover have "1 \<in> dom datos"
  proof -
    have "fst (fetch_datos ?W ?L 0) =
        fst (for_loop (fetch_body ?W ?L) (tl VARIABLES) [1 \<mapsto> ?s] 1)"
      by (simp add: fetch_datos_def VARIABLES_def example_first_body)
    moreover have "\<And>x acc w. \<exists>u. True \<and>
        fst (fetch_body ?W ?L x acc w) = Inr (case u of None \<Rightarrow> acc | Some v \<Rightarrow> acc(fst x \<mapsto> v))"
      using fetch_body_result [of ?W ?L] by blast
    from for_loop_updates [of "\<lambda>x w u. True" "fetch_body ?W ?L" fst "tl VARIABLES" "[1 \<mapsto> ?s]" 1, OF this]
    have "\<exists>res. fst (for_loop (fetch_body ?W ?L) (tl VARIABLES) [1 \<mapsto> ?s] 1) = Inr res \<and> res 1 = Some ?s"
      by (auto simp add: VARIABLES_def)
    ultimately show ?thesis using run by auto
  qed
  ultimately show ?thesis using run by blast
qed

subsection \<open>Transport failures\<close>

text \<open>
  Claim C4, as amended. Whatever \<^verbatim>\<open>session.get\<close> yields for the request, a network
  failure surfaces as the library's connection error (no status), a status from 400
  to 599 as \<^verbatim>\<open>HTTPError\<close> with that status, a body that is not JSON under any other
  status as \<^verbatim>\<open>JSONDecodeError\<close> (which carries no status), and any other status
  with a JSON body returns the body: three exceptions of the libraries, not wrapped.
\<close>

theorem transport_outcomes:
  assumes "session_get W (monetarias_url id_variable) (query_params desde hasta) w = (out, w1)"
  shows "(\<forall>msg. out = NoResponse msg \<longrightarrow>
            get_variables_monetarias W id_variable desde hasta w = (Inl (ConnectionError msg), w1)) \<and>
         (\<forall>status body. out = Response status body \<and> 400 \<le> status \<and> status < 600 \<longrightarrow>
            get_variables_monetarias W id_variable desde hasta w = (Inl (HTTPError status), w1)) \<and>
         (\<forall>status. out = Response status None \<and> \<not> (400 \<le> status \<and> status < 600) \<longrightarrow>
            get_variables_monetarias W id_variable desde hasta w = (Inl JSONDecodeError, w1)) \<and>
         (\<forall>status j. out = Response status (Some j) \<and> \<not> (400 \<le> status \<and> status < 600) \<longrightarrow>
            get_variables_monetarias W id_variable desde hasta w = (Inr j, w1))"
  using assms
  by (simp add: get_variables_monetarias_def http_get_json_def raise_for_status_def response_json_def)


theorem transport_outcomes_witness:
  "get_variables_monetarias (example_world [(503, Some (JObj []))]) (Some 1) (Some ''2024-01-01'') (Some ''2024-01-31'') 0 =
     (Inl (HTTPError 503), 1) \<and>
   get_variables_monetarias (example_world [(200, None)]) (Some 1) (Some ''2024-01-01'') (Some ''2024-01-31'') 0 =
     (Inl JSONDecodeError, 1) \<and>
   get_variables_monetarias (example_world []) (Some 1) (Some ''2024-01-01'') (Some ''2024-01-31'') 0 =
     (Inl (ConnectionError ''timed out''), 1)"
  using transport_outcomes [of "example_world [(503, Some (JObj []))]" "Some 1" "Some ''2024-01-01''" "Some ''2024-01-31''" 0
      "Response 503 (Some (JObj []))" 1]
    transport_outcomes [of "example_world [(200, None)]" "Some 1" "Some ''2024-01-01''" "Some ''2024-01-31''" 0
      "Response 200 None" 1]
    transport_outcomes [of "example_world []" "Some 1" "Some ''2024-01-01''" "Some ''2024-01-31''" 0
      "NoResponse ''timed out''" 1]
  by (simp add: example_world_def)


text \<open>
  A status outside 200 to 299 that raises nothing: with status 300 and a JSON body the
  call returns the body.
\<close>

theorem status_300_counterexample:
  "get_variables_monetarias (example_world [(300, Some (JObj [(''results'', JArr [])]))])
     (Some 1) (Some ''2024-01-01'') (Some ''2024-01-31'') 0 = (Inr (JObj [(''results'', JArr [])]), 1)"
  by (simp add: get_variables_monetarias_def http_get_json_def raise_for_status_def response_json_def
      example_world_def)

subsection \<open>The empty record list\<close>

text \<open>
  Claim C7. Building a time series from an empty record list returns the empty frame
  and raises nothing; so does the envelope whose \<^verbatim>\<open>results\<close> is the empty list.
\<close>

theorem build_frame_empty_records:
  "build_frame L (JArr []) = Inr empty_frame \<and> df_empty empty_frame \<and>
   frame_of_envelope L (JObj [(''results'', JArr [])]) = Inr empty_frame"
  by (simp add: build_frame_def DataFrame_def frame_of_records_def first_seen_def empty_frame_def
      parse_and_sort_def df_empty_def frame_of_envelope_def select_payload_def)

subsection \<open>The identifier 0\<close>


end
